theory Spec2Isabelle
  imports Complex_Main
begin

section \<open>Floating-point values\<close>

text \<open>
  The Python code computes with NumPy \<open>float64\<close> values. A finite float is modelled
  by the real number it stands for, so rounding and overflow are abstracted away; the
  IEEE special values are kept, because the code reaches them where real arithmetic has
  no value (zero to a negative power, infinity times zero). Signed zeros are not
  distinguished. Arguments of the modelled functions are finite floats, hence reals.
\<close>

datatype npfloat = Fin real | PInf | NInf | NaN

fun np_neg :: "npfloat \<Rightarrow> npfloat" where
  "np_neg (Fin a) = Fin (- a)"
| "np_neg PInf = NInf"
| "np_neg NInf = PInf"
| "np_neg NaN = NaN"

fun np_add :: "npfloat \<Rightarrow> npfloat \<Rightarrow> npfloat" where
  "np_add (Fin a) (Fin b) = Fin (a + b)"
| "np_add NaN _ = NaN"
| "np_add _ NaN = NaN"
| "np_add PInf NInf = NaN"
| "np_add NInf PInf = NaN"
| "np_add PInf _ = PInf"
| "np_add _ PInf = PInf"
| "np_add NInf _ = NInf"
| "np_add _ NInf = NInf"

definition np_sub :: "npfloat \<Rightarrow> npfloat \<Rightarrow> npfloat" where
  "np_sub x y = np_add x (np_neg y)"

text \<open>The sign of a product with an infinity; infinity times zero is NaN.\<close>

definition signed_inf :: "real \<Rightarrow> npfloat" where
  "signed_inf s = (if s = 0 then NaN else if 0 < s then PInf else NInf)"

fun np_mul :: "npfloat \<Rightarrow> npfloat \<Rightarrow> npfloat" where
  "np_mul (Fin a) (Fin b) = Fin (a * b)"
| "np_mul NaN _ = NaN"
| "np_mul _ NaN = NaN"
| "np_mul PInf (Fin b) = signed_inf b"
| "np_mul NInf (Fin b) = signed_inf (- b)"
| "np_mul (Fin a) PInf = signed_inf a"
| "np_mul (Fin a) NInf = signed_inf (- a)"
| "np_mul PInf PInf = PInf"
| "np_mul NInf NInf = PInf"
| "np_mul PInf NInf = NInf"
| "np_mul NInf PInf = NInf"

fun np_div :: "npfloat \<Rightarrow> npfloat \<Rightarrow> npfloat" where
  "np_div (Fin a) (Fin b) = (if b = 0 then signed_inf a else Fin (a / b))"
| "np_div NaN _ = NaN"
| "np_div _ NaN = NaN"
| "np_div (Fin a) PInf = Fin 0"
| "np_div (Fin a) NInf = Fin 0"
| "np_div PInf (Fin b) = (if 0 \<le> b then PInf else NInf)"
| "np_div NInf (Fin b) = (if 0 \<le> b then NInf else PInf)"
| "np_div _ _ = NaN"

text \<open>Comparisons: every comparison with NaN is false.\<close>

fun np_le :: "npfloat \<Rightarrow> npfloat \<Rightarrow> bool" where
  "np_le (Fin a) (Fin b) = (a \<le> b)"
| "np_le NaN _ = False"
| "np_le _ NaN = False"
| "np_le NInf _ = True"
| "np_le _ PInf = True"
| "np_le _ _ = False"

fun np_lt :: "npfloat \<Rightarrow> npfloat \<Rightarrow> bool" where
  "np_lt (Fin a) (Fin b) = (a < b)"
| "np_lt NaN _ = False"
| "np_lt _ NaN = False"
| "np_lt PInf _ = False"
| "np_lt _ NInf = False"
| "np_lt _ _ = True"

text \<open>
  \<open>x ** y\<close> on floats: a positive base gives the real power; a zero base gives 0 for a
  positive exponent, 1 for the exponent 0 and \<open>+inf\<close> for a negative one; a negative
  base has a value only at an integral exponent and is NaN otherwise.
\<close>

definition np_power :: "real \<Rightarrow> real \<Rightarrow> npfloat" where
  "np_power x y =
     (if 0 < x then Fin (x powr y)
      else if x = 0 then (if 0 < y then Fin 0 else if y = 0 then Fin 1 else PInf)
      else if y \<in> \<int> then Fin (x powi \<lfloor>y\<rfloor>)
      else NaN)"

text \<open>\<open>np.clip(v, lo, hi)\<close> is \<open>minimum(hi, maximum(v, lo))\<close>.\<close>

definition np_clip :: "real \<Rightarrow> real \<Rightarrow> real \<Rightarrow> real" where
  "np_clip v lo hi = min hi (max v lo)"

section \<open>Shape primitives (BladeGenerator.py)\<close>

definition eps :: real where
  "eps = 1 / 10 ^ 9"

text \<open>\<open>beta_distribution(x, alpha)\<close>, at one element of the array \<open>x\<close>.\<close>

definition beta_distribution :: "real \<Rightarrow> real \<Rightarrow> npfloat" where
  "beta_distribution x alpha =
     (let a = np_clip alpha eps (1 - eps);
          num = np_mul (np_power x a) (np_power (1 - x) (1 - a));
          den = np_add (np_mul (np_power a a) (np_power (1 - a) (1 - a))) (Fin eps)
      in np_div num den)"

text \<open>\<open>beta_distribution_extended(x, alpha, kappa)\<close>; the outer power has a float base.\<close>

fun np_power_fl :: "npfloat \<Rightarrow> real \<Rightarrow> npfloat" where
  "np_power_fl (Fin b) y = np_power b y"
| "np_power_fl PInf y = (if 0 < y then PInf else if y = 0 then Fin 1 else Fin 0)"
| "np_power_fl NInf y =
     (if y = 0 then Fin 1 else if y < 0 then Fin 0
      else if y \<in> \<int> \<and> odd \<lfloor>y\<rfloor> then NInf else PInf)"
| "np_power_fl NaN y = (if y = 0 then Fin 1 else NaN)"

definition beta_distribution_extended :: "real \<Rightarrow> real \<Rightarrow> real \<Rightarrow> npfloat" where
  "beta_distribution_extended x alpha kappa =
     (let a = np_clip alpha eps (1 - eps);
          num = np_mul (np_power x (kappa * a)) (np_power (1 - x) (kappa * (1 - a)));
          den = np_power_fl
                  (np_add (np_mul (np_power a a) (np_power (1 - a) (1 - a))) (Fin eps)) kappa
      in np_div num den)"

text \<open>
  \<open>thickness_distribution(x, a, b, beta)\<close>, at one element of the float array \<open>x\<close>:
  the two masked assignments run in the source's order, the second after the first.
\<close>

definition thickness_distribution :: "real \<Rightarrow> real \<Rightarrow> real \<Rightarrow> real \<Rightarrow> npfloat" where
  "thickness_distribution x a0 b0 beta =
     (let a1 = np_clip a0 (1/10) (3/10);
          b1 = np_clip b0 (7/10) (9/10);
          a = (if \<not> a1 \<le> b1 then min a1 b1 else a1);
          b = (if \<not> a1 \<le> b1 then max a1 b1 else b1);
          tau0 = Fin 1;
          tau1 = (if x \<le> a
                  then (if 0 < a then np_power ((1 - cos (pi * x / a)) / 2) beta else Fin 0)
                  else tau0);
          tau2 = (if b \<le> x
                  then (if b < 1 then np_power ((1 + cos (pi * (x - b) / (1 - b))) / 2) beta
                        else Fin 0)
                  else tau1)
      in tau2)"

definition tapered_thickness_distribution ::
  "real \<Rightarrow> real \<Rightarrow> real \<Rightarrow> real \<Rightarrow> real \<Rightarrow> npfloat" where
  "tapered_thickness_distribution x a b beta taper =
     (let base = thickness_distribution x a b beta
      in np_mul base (Fin (1 - taper * x)))"

section \<open>Errors\<close>

text \<open>
  Every raise the modelled code can reach is a constructor. In Python all of them but the
  last three are \<open>ValueError\<close>s; they are told apart here by the place that raises them.
  \<^item> \<open>EmptyConcatenate\<close>: \<open>np.vstack\<close> or \<open>np.hstack\<close> of an empty list
    ("need at least one array to concatenate");
  \<^item> \<open>NegativeSamples\<close>: \<open>np.linspace\<close> with a negative number of samples;
  \<^item> \<open>CannotReshape\<close>: \<open>reshape(-1, 4)\<close> of an array whose size is not a multiple of 4;
  \<^item> \<open>ZeroSizeReduction\<close>: \<open>max\<close> or \<open>min\<close> of an empty array;
  \<^item> \<open>SpanExceedsHeight\<close>: the raise of \<open>assemble_blades_on_cylinder\<close>;
  \<^item> \<open>InvalidPosition\<close>, \<open>UnknownDiffuserShape\<close>: the raises of \<open>create_diffuser\<close>;
  \<^item> \<open>NoneAccess\<close>: an attribute or index access on \<open>None\<close>;
  \<^item> \<open>ZeroDivision\<close>: integer division by zero;
  \<^item> \<open>IndexError\<close>: indexing an empty list.
\<close>

datatype error =
    EmptyConcatenate
  | NegativeSamples
  | CannotReshape
  | ZeroSizeReduction
  | SpanExceedsHeight
  | InvalidPosition
  | UnknownDiffuserShape
  | NoneAccess
  | ZeroDivision
  | IndexError

section \<open>Blade generator (BladeGenerator.py)\<close>

type_synonym point = "npfloat \<times> npfloat \<times> npfloat"

text \<open>
  \<open>np.linspace(start, stop, num)\<close>: \<open>num\<close> samples \<open>start + i * step\<close> with
  \<open>step = (stop - start) / (num - 1)\<close>, the last one set to \<open>stop\<close>; a single sample is
  \<open>start\<close>; a negative \<open>num\<close> raises.
\<close>

definition linspace :: "real \<Rightarrow> real \<Rightarrow> int \<Rightarrow> error + real list" where
  "linspace start stop num =
     (if num < 0 then Inl NegativeSamples
      else Inr (map (\<lambda>i. if 1 < num \<and> int i = num - 1 then stop
                           else if 1 < num then start + real i * ((stop - start) / real_of_int (num - 1))
                           else start)
                    [0..<nat num]))"

text \<open>
  One spanwise layer: a dictionary in the source. The keys read with \<open>prm[...]\<close> are
  fields; the keys read with \<open>prm.get\<close> and the optional \<open>radius\<close> are options, \<open>None\<close>
  for an absent key.
\<close>

record span_layer =
  layer_theta0 :: real
  layer_h_max :: real
  layer_t_max :: real
  layer_alpha :: real
  layer_a :: real
  layer_b :: real
  layer_beta :: real
  layer_mode :: "string option"
  layer_kappa :: "real option"
  layer_taper :: "real option"
  layer_radius :: "real option"

text \<open>
  The object \<open>Blade3D\<close>. The six caches are \<open>None\<close> after \<open>__init__\<close>; \<open>z_coords\<close> is
  the attribute that \<open>assemble_blades_on_cylinder\<close> attaches, \<open>None\<close> while it is absent.
  A face cache is the flat \<open>int64\<close> array \<open>[4, v0, v1, v2, v3, 4, ...]\<close>.
\<close>

record blade =
  layers :: "span_layer list"
  Theta :: real
  H :: real
  z0 :: real
  hub_radius :: real
  shroud_radius :: real
  vertices_upper :: "point list option"
  vertices_lower :: "point list option"
  vertices_center :: "point list option"
  faces_upper :: "int list option"
  faces_lower :: "int list option"
  faces_center :: "int list option"
  z_coords :: "npfloat list option"

definition Blade3D ::
  "span_layer list \<Rightarrow> real \<Rightarrow> real \<Rightarrow> real \<Rightarrow> real \<Rightarrow> real \<Rightarrow> blade" where
  "Blade3D span_layers Theta' H' z0' hub_radius' shroud_radius' =
     \<lparr> layers = span_layers, Theta = Theta', H = H', z0 = z0',
       hub_radius = hub_radius', shroud_radius = shroud_radius',
       vertices_upper = None, vertices_lower = None, vertices_center = None,
       faces_upper = None, faces_lower = None, faces_center = None,
       z_coords = None \<rparr>"

text \<open>
  The method \<open>_layer_radius(i, n)\<close>, called by \<open>generate_surface\<close> with an index
  \<open>i\<close> of its loop over the layers, hence within the list.
\<close>

definition layer_radius_of :: "blade \<Rightarrow> nat \<Rightarrow> nat \<Rightarrow> real" where
  "layer_radius_of self i n =
     (let li = layers self ! i in
      case layer_radius li of
        Some r \<Rightarrow> r
      | None \<Rightarrow>
          (let w = (if n \<le> 1 then 0 else real i / real (n - 1))
           in (1 - w) * hub_radius self + w * shroud_radius self))"

text \<open>
  The body of the loop over the layers in \<open>generate_surface\<close>: the upper, lower and
  centre points of layer \<open>i\<close> on the chordwise samples \<open>xi\<close>.
\<close>

definition layer_points ::
  "blade \<Rightarrow> real list \<Rightarrow> nat \<Rightarrow> nat \<Rightarrow> point list \<times> point list \<times> point list" where
  "layer_points self xi i num_layers =
     (let prm = layers self ! i;
          mode = (case layer_mode prm of None \<Rightarrow> ''basic'' | Some m \<Rightarrow> m);
          gamma = (\<lambda>x. if mode = ''extended''
                        then beta_distribution_extended x (layer_alpha prm)
                               (case layer_kappa prm of None \<Rightarrow> 3/2 | Some k \<Rightarrow> k)
                        else beta_distribution x (layer_alpha prm));
          tau = (\<lambda>x. if mode = ''tapered''
                      then tapered_thickness_distribution x (layer_a prm) (layer_b prm)
                             (layer_beta prm)
                             (case layer_taper prm of None \<Rightarrow> 1/2 | Some t \<Rightarrow> t)
                      else thickness_distribution x (layer_a prm) (layer_b prm) (layer_beta prm));
          theta = (\<lambda>x. layer_theta0 prm + x * Theta self);
          z_center = (\<lambda>x. np_sub (Fin (z0 self + x * H self))
                                  (np_mul (Fin (layer_h_max prm)) (gamma x)));
          z_upper = (\<lambda>x. np_add (z_center x) (np_mul (Fin (layer_t_max prm)) (tau x)));
          z_lower = (\<lambda>x. np_sub (z_center x) (np_mul (Fin (layer_t_max prm)) (tau x)));
          R = layer_radius_of self i num_layers;
          x_circ = (\<lambda>x. Fin (cos (theta x) * R));
          y_circ = (\<lambda>x. Fin (sin (theta x) * R))
      in (map (\<lambda>x. (x_circ x, y_circ x, z_upper x)) xi,
          map (\<lambda>x. (x_circ x, y_circ x, z_lower x)) xi,
          map (\<lambda>x. (x_circ x, y_circ x, z_center x)) xi))"

text \<open>
  The inner function \<open>build_faces\<close>: one quad \<open>[4, v0, v1, v2, v3]\<close> per pair of adjacent
  layers and chord step; \<open>np.hstack\<close> raises on the empty list of quads.
\<close>

definition build_faces :: "int \<Rightarrow> nat \<Rightarrow> error + int list" where
  "build_faces N num_layers =
     (let faces = concat (map (\<lambda>i. map (\<lambda>j.
                      (let base0 = int i * N; base1 = (int i + 1) * N;
                           v0 = base0 + int j; v1 = base0 + int j + 1;
                           v2 = base1 + int j + 1; v3 = base1 + int j
                       in [4, v0, v1, v2, v3]))
                    [0..<nat (N - 1)]) [0..<num_layers - 1])
      in if faces = [] then Inl EmptyConcatenate else Inr (concat faces))"

text \<open>
  \<open>generate_surface\<close>: the result is what the call raises or \<open>Inr ()\<close>, paired with the
  blade as the call leaves it (the vertex caches are assigned before the faces are built).
\<close>

definition generate_surface :: "blade \<Rightarrow> int \<Rightarrow> (error + unit) \<times> blade" where
  "generate_surface self points_per_chord =
     (let num_layers = length (layers self); N = points_per_chord in
      case linspace 0 1 N of
        Inl e \<Rightarrow> (Inl e, self)
      | Inr xi \<Rightarrow>
          (let per_layer = map (\<lambda>i. layer_points self xi i num_layers) [0..<num_layers] in
           if per_layer = [] then (Inl EmptyConcatenate, self)
           else
             (let self1 = self\<lparr> vertices_upper := Some (concat (map fst per_layer)),
                               vertices_lower := Some (concat (map (fst \<circ> snd) per_layer)),
                               vertices_center := Some (concat (map (snd \<circ> snd) per_layer)) \<rparr>
              in case build_faces N num_layers of
                   Inl e \<Rightarrow> (Inl e, self1)
                 | Inr fu \<Rightarrow>
                     (case build_faces N num_layers of
                        Inl e \<Rightarrow> (Inl e, self1\<lparr> faces_upper := Some fu \<rparr>)
                      | Inr fl \<Rightarrow>
                          (case build_faces N num_layers of
                             Inl e \<Rightarrow> (Inl e, self1\<lparr> faces_upper := Some fu,
                                                      faces_lower := Some fl \<rparr>)
                           | Inr fc \<Rightarrow> (Inr (), self1\<lparr> faces_upper := Some fu,
                                                         faces_lower := Some fl,
                                                         faces_center := Some fc \<rparr>))))))"

text \<open>
  The vertex indices of a flat quad array: every entry but the leading count of each
  group of five.
\<close>

definition quad_vertex_indices :: "int list \<Rightarrow> int list" where
  "quad_vertex_indices flat = map (\<lambda>k. flat ! k) (filter (\<lambda>k. k mod 5 \<noteq> 0) [0..<length flat])"

text \<open>The example of the source's \<open>__main__\<close>: its first two layers and its blade.\<close>

definition layers_params :: "span_layer list" where
  "layers_params =
     [\<lparr> layer_theta0 = 0, layer_h_max = 2/100, layer_t_max = 1/100, layer_alpha = 4/10,
        layer_a = 2/10, layer_b = 8/10, layer_beta = 3/10, layer_mode = Some ''extended'',
        layer_kappa = Some (15/10), layer_taper = None, layer_radius = None \<rparr>,
      \<lparr> layer_theta0 = 5/1000, layer_h_max = 22/1000, layer_t_max = 11/1000,
        layer_alpha = 41/100, layer_a = 2/10, layer_b = 8/10, layer_beta = 3/10,
        layer_mode = Some ''extended'', layer_kappa = Some (155/100), layer_taper = None,
        layer_radius = None \<rparr>]"

definition example_blade :: "span_layer list \<Rightarrow> blade" where
  "example_blade ls = Blade3D ls (pi / 6) (21/100) (- (1/10)) (121/1000) (16/100)"

section \<open>The mesh libraries\<close>

text \<open>
  \<open>trimesh\<close> and \<open>pyvista\<close> are third-party libraries. The code is modelled over any
  implementation of the operations it calls: \<open>'m\<close> is the type of \<open>trimesh.Trimesh\<close>
  objects, \<open>'p\<close> the type of \<open>pv.PolyData\<close> objects. A method that changes its object in
  place is a function to the changed object. The library calls are taken not to raise.
\<close>

record ('m, 'p) lib =
  tm_cylinder :: "real \<Rightarrow> real \<Rightarrow> nat \<Rightarrow> 'm"
  tm_Trimesh :: "point list \<Rightarrow> int list list \<Rightarrow> 'm"
  tm_remove_duplicate_faces :: "'m \<Rightarrow> 'm"
  tm_remove_unreferenced_vertices :: "'m \<Rightarrow> 'm"
  tm_fill_holes :: "'m \<Rightarrow> 'm"
  tm_apply_translation :: "npfloat \<times> npfloat \<times> npfloat \<Rightarrow> 'm \<Rightarrow> 'm"
  tm_rotate_z :: "real \<Rightarrow> 'm \<Rightarrow> 'm"
  tm_copy :: "'m \<Rightarrow> 'm"
  tm_concatenate :: "'m list \<Rightarrow> 'm"
  pv_PolyData :: "point list option \<Rightarrow> int list option \<Rightarrow> 'p"
  pv_merge :: "'p \<Rightarrow> 'p list \<Rightarrow> 'p"
  pv_points :: "'p \<Rightarrow> point list"
  pv_faces :: "'p \<Rightarrow> int list"

section \<open>Solid and surface meshes of a blade (BladeGenerator.py)\<close>

text \<open>
  Both functions start with \<open>if self.vertices_upper is None: self.generate_surface()\<close>,
  with the default of 300 points per chord.
\<close>

definition ensure_surface :: "blade \<Rightarrow> (error + unit) \<times> blade" where
  "ensure_surface self =
     (if vertices_upper self = None then generate_surface self 300 else (Inr (), self))"

text \<open>The two triangles of a quad, in the order and winding of the source.\<close>

definition upper_faces :: "nat \<Rightarrow> int \<Rightarrow> int list list" where
  "upper_faces num_layers N =
     concat (map (\<lambda>i. concat (map (\<lambda>j.
        (let base0 = int i * N; base1 = (int i + 1) * N;
             v0 = base0 + int j; v1 = base0 + int j + 1;
             v2 = base1 + int j + 1; v3 = base1 + int j
         in [[v0, v1, v2], [v0, v2, v3]]))
        [0..<nat (N - 1)])) [0..<num_layers - 1])"

definition lower_faces :: "nat \<Rightarrow> int \<Rightarrow> int \<Rightarrow> int list list" where
  "lower_faces num_layers N offset =
     concat (map (\<lambda>i. concat (map (\<lambda>j.
        (let base0 = int i * N + offset; base1 = (int i + 1) * N + offset;
             v0 = base0 + int j; v1 = base0 + int j + 1;
             v2 = base1 + int j + 1; v3 = base1 + int j
         in [[v0, v2, v1], [v0, v3, v2]]))
        [0..<nat (N - 1)])) [0..<num_layers - 1])"

definition side_faces :: "nat \<Rightarrow> int \<Rightarrow> int \<Rightarrow> int list list" where
  "side_faces num_layers N offset =
     concat (map (\<lambda>i. concat (map (\<lambda>j.
        (let base_upper = int i * N; base_lower = base_upper + offset;
             v0 = base_upper + int j; v1 = base_upper + int j + 1;
             v2 = base_lower + int j + 1; v3 = base_lower + int j
         in [[v0, v1, v2], [v0, v2, v3]]))
        [0..<nat (N - 1)])) [0..<num_layers])"

definition generate_solid_from_surfaces ::
  "('m, 'p) lib \<Rightarrow> blade \<Rightarrow> string \<Rightarrow> (error + 'm) \<times> blade" where
  "generate_solid_from_surfaces L self0 mode =
     (case ensure_surface self0 of
        (Inl e, self) \<Rightarrow> (Inl e, self)
      | (Inr _, self) \<Rightarrow>
          (let num_layers = length (layers self) in
           case vertices_upper self of
             None \<Rightarrow> (Inl NoneAccess, self)
           | Some vu \<Rightarrow>
               if num_layers = 0 then (Inl ZeroDivision, self)
               else
                 (let N = int (length vu) div int num_layers;
                      use_upper = (mode = ''upper'' \<or> mode = ''both'');
                      use_lower = (mode = ''lower'' \<or> mode = ''both'')
                  in case (if use_lower
                           then (case vertices_lower self of
                                   None \<Rightarrow> Inl NoneAccess | Some vl \<Rightarrow> Inr vl)
                           else Inr []) of
                       Inl e \<Rightarrow> (Inl e, self)
                     | Inr lower_part \<Rightarrow>
                       (let vertices = (if use_upper then vu else []) @ lower_part;
                            offset = (if mode = ''both'' then int (length vu) else 0);
                            faces = (if use_upper then upper_faces num_layers N else [])
                                    @ (if use_lower then lower_faces num_layers N offset else [])
                                    @ (if mode = ''both'' then side_faces num_layers N offset
                                       else []);
                            solid_mesh = tm_Trimesh L vertices faces
                        in (Inr (tm_fill_holes L
                                   (tm_remove_unreferenced_vertices L
                                      (tm_remove_duplicate_faces L solid_mesh))),
                            self)))))"

definition to_pyvista_mesh ::
  "('m, 'p) lib \<Rightarrow> blade \<Rightarrow> string \<Rightarrow> (error + 'p) \<times> blade" where
  "to_pyvista_mesh L self0 mode =
     (case ensure_surface self0 of
        (Inl e, self) \<Rightarrow> (Inl e, self)
      | (Inr _, self) \<Rightarrow>
          (let meshes =
                 (if mode = ''upper'' \<or> mode = ''both''
                  then [pv_PolyData L (vertices_upper self) (faces_upper self)] else [])
               @ (if mode = ''lower'' \<or> mode = ''both''
                  then [pv_PolyData L (vertices_lower self) (faces_lower self)] else [])
               @ (if mode = ''center''
                  then [pv_PolyData L (vertices_center self) (faces_center self)] else [])
           in case meshes of
                [] \<Rightarrow> (Inl IndexError, self)
              | [m] \<Rightarrow> (Inr m, self)
              | m # ms \<Rightarrow> (Inr (pv_merge L m ms), self)))"

section \<open>Radial assembly (Assembly.py)\<close>

text \<open>\<open>max\<close> and \<open>min\<close> of an array: NaN propagates, the empty array raises.\<close>

definition np_maximum :: "npfloat \<Rightarrow> npfloat \<Rightarrow> npfloat" where
  "np_maximum x y = (if x = NaN \<or> y = NaN then NaN else if np_le x y then y else x)"

definition np_minimum :: "npfloat \<Rightarrow> npfloat \<Rightarrow> npfloat" where
  "np_minimum x y = (if x = NaN \<or> y = NaN then NaN else if np_le x y then x else y)"

fun array_max :: "npfloat list \<Rightarrow> error + npfloat" where
  "array_max [] = Inl ZeroSizeReduction"
| "array_max (x # xs) = Inr (foldl np_maximum x xs)"

fun array_min :: "npfloat list \<Rightarrow> error + npfloat" where
  "array_min [] = Inl ZeroSizeReduction"
| "array_min (x # xs) = Inr (foldl np_minimum x xs)"

text \<open>\<open>faces.reshape(-1, 4)[:, 1:]\<close>: rows of four, each without its first entry.\<close>

fun rows4 :: "int list \<Rightarrow> int list list" where
  "rows4 (c # x # y # z # rest) = [x, y, z] # rows4 rest"
| "rows4 _ = []"

definition reshape4_tail :: "int list \<Rightarrow> error + int list list" where
  "reshape4_tail flat = (if length flat mod 4 \<noteq> 0 then Inl CannotReshape else Inr (rows4 flat))"

definition z_column :: "point list \<Rightarrow> npfloat list" where
  "z_column vs = map (\<lambda>(x, y, z). z) vs"

text \<open>
  \<open>assemble_blades_on_cylinder\<close>: the result is what the call raises or the merged mesh,
  paired with the blade as the call leaves it.
\<close>

definition assemble_blades_on_cylinder ::
  "('m, 'p) lib \<Rightarrow> blade \<Rightarrow> int \<Rightarrow> real \<Rightarrow> real \<Rightarrow> real \<Rightarrow> bool \<Rightarrow> (error + 'm) \<times> blade" where
  "assemble_blades_on_cylinder L blade0 n_blades radius height z_base as_solid =
     (let cylinder = tm_apply_translation L (Fin 0, Fin 0, Fin (z_base + height / 2))
                       (tm_cylinder L radius height 128);
          built = (if as_solid then generate_solid_from_surfaces L blade0 ''both''
                   else (case to_pyvista_mesh L blade0 ''both'' of
                           (Inl e, b) \<Rightarrow> (Inl e, b)
                         | (Inr pd, b) \<Rightarrow>
                             (case reshape4_tail (pv_faces L pd) of
                                Inl e \<Rightarrow> (Inl e, b)
                              | Inr faces \<Rightarrow> (Inr (tm_Trimesh L (pv_points L pd) faces), b))))
      in case built of
           (Inl e, blade1) \<Rightarrow> (Inl e, blade1)
         | (Inr blade_mesh, blade1) \<Rightarrow>
             (case (case z_coords blade1 of
                      Some zc \<Rightarrow> Inr (blade1, zc)
                    | None \<Rightarrow>
                        (case (vertices_upper blade1, vertices_lower blade1) of
                           (Some vu, Some vl) \<Rightarrow>
                             (let z_all = z_column vu @ z_column vl
                              in Inr (blade1\<lparr> z_coords := Some z_all \<rparr>, z_all))
                         | _ \<Rightarrow> Inl NoneAccess)) of
                Inl e \<Rightarrow> (Inl e, blade1)
              | Inr (blade2, zc) \<Rightarrow>
                  (case (array_max zc, array_min zc) of
                     (Inr zmax, Inr zmin) \<Rightarrow>
                       (let z_blade_span = np_sub zmax zmin in
                        if np_lt (Fin height) z_blade_span
                        then (Inl SpanExceedsHeight, blade2)
                        else
                          (let z_shift = np_sub (Fin (z_base + height / 2))
                                           (np_add zmin (np_div z_blade_span (Fin 2)));
                               copies = map (\<lambda>i.
                                   (let angle = 2 * pi * real i / real_of_int n_blades;
                                        shifted = tm_copy L blade_mesh;
                                        shifted1 = tm_apply_translation L
                                                     (Fin 0, Fin 0, z_shift) shifted
                                    in tm_rotate_z L angle shifted1))
                                 [0..<nat n_blades]
                           in (Inr (tm_concatenate L (cylinder # copies)), blade2)))
                   | _ \<Rightarrow> (Inl ZeroSizeReduction, blade2))))"

section \<open>Diffusers (Assembly.py)\<close>

text \<open>
  The vertex and face arrays that \<open>create_diffuser\<close> hands to \<open>trimesh.Trimesh\<close>.
  \<open>np.meshgrid(phi, theta)\<close> followed by \<open>flatten()\<close> lists the grid row by row: one row
  per polar angle, one column per azimuth, so vertex \<open>i * n_phi + j\<close> has polar angle
  \<open>theta[i]\<close> and azimuth \<open>phi[j]\<close>.
\<close>

definition hemisphere_faces :: "nat \<Rightarrow> nat \<Rightarrow> int list list" where
  "hemisphere_faces n_theta n_phi =
     concat (map (\<lambda>i.
        concat (map (\<lambda>j.
           (let v0 = int i * int n_phi + int j; v1 = v0 + 1;
                v2 = (int i + 1) * int n_phi + int j + 1;
                v3 = (int i + 1) * int n_phi + int j
            in [[v0, v1, v2], [v0, v2, v3]]))
           [0..<n_phi - 1])
        @ (let v0 = int i * int n_phi + (int n_phi - 1); v1 = int i * int n_phi;
               v2 = (int i + 1) * int n_phi;
               v3 = (int i + 1) * int n_phi + (int n_phi - 1)
           in [[v0, v1, v2], [v0, v2, v3]]))
       [0..<n_theta - 1])"

definition hemisphere_arrays ::
  "real \<Rightarrow> real \<Rightarrow> string \<Rightarrow> error + point list \<times> int list list" where
  "hemisphere_arrays radius_base z_base position =
     (let n_phi = 128; n_theta = 64 in
      case (linspace 0 (2 * pi) (int n_phi), linspace 0 (pi / 2) (int n_theta)) of
        (Inr phi, Inr theta) \<Rightarrow>
          (let X = (\<lambda>t p. Fin (radius_base * sin t * cos p));
               Y = (\<lambda>t p. Fin (radius_base * sin t * sin p))
           in case (if position = ''bottom''
                    then Inr (\<lambda>t. Fin (- radius_base * cos t + z_base + radius_base))
                    else if position = ''top''
                    then Inr (\<lambda>t. Fin (radius_base * cos t + z_base))
                    else Inl InvalidPosition) of
                Inl e \<Rightarrow> Inl e
              | Inr Z \<Rightarrow>
                  Inr (concat (map (\<lambda>t. map (\<lambda>p. (X t p, Y t p, Z t)) phi) theta),
                       hemisphere_faces n_theta n_phi))
      | (Inl e, _) \<Rightarrow> Inl e
      | (_, Inl e) \<Rightarrow> Inl e)"

definition paraboloid_faces :: "nat \<Rightarrow> int list list" where
  "paraboloid_faces n =
     concat (map (\<lambda>i. concat (map (\<lambda>j.
        (let v0 = int i * int n + int j; v1 = v0 + 1;
             v2 = (int i + 1) * int n + int j + 1;
             v3 = (int i + 1) * int n + int j
         in [[v0, v1, v2], [v0, v2, v3]]))
        [0..<n - 1])) [0..<n - 1])"

definition paraboloid_arrays ::
  "real \<Rightarrow> real \<Rightarrow> real \<Rightarrow> string \<Rightarrow> error + point list \<times> int list list" where
  "paraboloid_arrays radius_base height z_base position =
     (let n = 128 in
      case (linspace 0 (2 * pi) (int n), linspace 0 radius_base (int n)) of
        (Inr phi, Inr r) \<Rightarrow>
          (let ratio2 = (\<lambda>R. np_mul (np_div (Fin R) (Fin radius_base))
                                    (np_div (Fin R) (Fin radius_base)))
           in case (if position = ''bottom''
                    then Inr (\<lambda>R. np_add (np_mul (Fin height) (ratio2 R)) (Fin z_base))
                    else if position = ''top''
                    then Inr (\<lambda>R. np_add (np_mul (Fin height) (np_sub (Fin 1) (ratio2 R)))
                                          (Fin z_base))
                    else Inl InvalidPosition) of
                Inl e \<Rightarrow> Inl e
              | Inr Z \<Rightarrow>
                  Inr (concat (map (\<lambda>p. map (\<lambda>R. (Fin (R * cos p), Fin (R * sin p), Z R)) r) phi),
                       paraboloid_faces n))
      | (Inl e, _) \<Rightarrow> Inl e
      | (_, Inl e) \<Rightarrow> Inl e)"

definition create_diffuser ::
  "('m, 'p) lib \<Rightarrow> string \<Rightarrow> real \<Rightarrow> real \<Rightarrow> real \<Rightarrow> real \<Rightarrow> string \<Rightarrow> error + 'm" where
  "create_diffuser L shape radius_base radius_top height z_base position =
     (if shape = ''hemisphere''
      then (case hemisphere_arrays radius_base z_base position of
              Inl e \<Rightarrow> Inl e
            | Inr (verts, faces) \<Rightarrow> Inr (tm_Trimesh L verts faces))
      else if shape = ''paraboloid''
      then (case paraboloid_arrays radius_base height z_base position of
              Inl e \<Rightarrow> Inl e
            | Inr (verts, faces) \<Rightarrow> Inr (tm_Trimesh L verts faces))
      else Inl UnknownDiffuserShape)"


section \<open>A plain implementation of the mesh libraries\<close>

text \<open>
  To run the assembler on concrete inputs: a mesh is the pair of its vertex array and its
  face array, and constructors store what they are given. Faces with the same vertices
  are duplicates, of which the first is kept; hole filling, which is best effort, fills
  nothing. Nothing proved for all libraries depends on this instance.
\<close>

type_synonym plain_mesh = "point list \<times> int list list"

type_synonym plain_polydata = "point list \<times> int list"

definition plain_cylinder :: "real \<Rightarrow> real \<Rightarrow> nat \<Rightarrow> plain_mesh" where
  "plain_cylinder radius height sections =
     (let ring = (\<lambda>z. map (\<lambda>k. (Fin (radius * cos (2 * pi * real k / real sections)),
                                  Fin (radius * sin (2 * pi * real k / real sections)),
                                  Fin z)) [0..<sections]);
          s = int sections;
          nxt = (\<lambda>k. (int k + 1) mod s)
      in ([(Fin 0, Fin 0, Fin (- height / 2)), (Fin 0, Fin 0, Fin (height / 2))]
            @ ring (- height / 2) @ ring (height / 2),
          concat (map (\<lambda>k. [[0, 2 + nxt k, 2 + int k],
                             [1, 2 + s + int k, 2 + s + nxt k],
                             [2 + int k, 2 + nxt k, 2 + s + nxt k],
                             [2 + int k, 2 + s + nxt k, 2 + s + int k]]) [0..<sections])))"

definition plain_translation :: "npfloat \<times> npfloat \<times> npfloat \<Rightarrow> plain_mesh \<Rightarrow> plain_mesh" where
  "plain_translation d m =
     (case d of (dx, dy, dz) \<Rightarrow>
        (map (\<lambda>(x, y, z). (np_add x dx, np_add y dy, np_add z dz)) (fst m), snd m))"

definition plain_rotate_z :: "real \<Rightarrow> plain_mesh \<Rightarrow> plain_mesh" where
  "plain_rotate_z angle m =
     (map (\<lambda>(x, y, z). (np_sub (np_mul (Fin (cos angle)) x) (np_mul (Fin (sin angle)) y),
                         np_add (np_mul (Fin (sin angle)) x) (np_mul (Fin (cos angle)) y),
                         z)) (fst m), snd m)"

fun unique_faces :: "int list list \<Rightarrow> int list list \<Rightarrow> int list list" where
  "unique_faces seen [] = []"
| "unique_faces seen (f # fs) =
     (if sort f \<in> set seen then unique_faces seen fs
      else f # unique_faces (sort f # seen) fs)"

definition plain_remove_duplicate_faces :: "plain_mesh \<Rightarrow> plain_mesh" where
  "plain_remove_duplicate_faces m = (fst m, unique_faces [] (snd m))"

definition plain_remove_unreferenced_vertices :: "plain_mesh \<Rightarrow> plain_mesh" where
  "plain_remove_unreferenced_vertices m =
     (let kept = filter (\<lambda>k. int k \<in> set (concat (snd m))) [0..<length (fst m)];
          renumber = (\<lambda>v. int (length (filter (\<lambda>k. int k < v) kept)))
      in (map (\<lambda>k. fst m ! k) kept, map (map renumber) (snd m)))"

fun plain_concatenate :: "plain_mesh list \<Rightarrow> plain_mesh" where
  "plain_concatenate [] = ([], [])"
| "plain_concatenate (m # ms) =
     (case plain_concatenate ms of (vs, fs) \<Rightarrow>
        (fst m @ vs, snd m @ map (map (\<lambda>v. v + int (length (fst m)))) fs))"

text \<open>Cells \<open>[n, i1, ..., in, ...]\<close> of a flat face array, their indices shifted.\<close>

fun shift_cells :: "int \<Rightarrow> nat \<Rightarrow> int list \<Rightarrow> int list" where
  "shift_cells off k [] = []"
| "shift_cells off 0 (n # xs) = n # shift_cells off (nat n) xs"
| "shift_cells off (Suc k) (v # xs) = (v + off) # shift_cells off k xs"

fun plain_merge_all :: "plain_polydata list \<Rightarrow> plain_polydata" where
  "plain_merge_all [] = ([], [])"
| "plain_merge_all (m # ms) =
     (case plain_merge_all ms of (vs, fs) \<Rightarrow>
        (fst m @ vs, snd m @ shift_cells (int (length (fst m))) 0 fs))"

definition plain_lib :: "(plain_mesh, plain_polydata) lib" where
  "plain_lib =
     \<lparr> tm_cylinder = plain_cylinder,
       tm_Trimesh = (\<lambda>vs fs. (vs, fs)),
       tm_remove_duplicate_faces = plain_remove_duplicate_faces,
       tm_remove_unreferenced_vertices = plain_remove_unreferenced_vertices,
       tm_fill_holes = (\<lambda>m. m),
       tm_apply_translation = plain_translation,
       tm_rotate_z = plain_rotate_z,
       tm_copy = (\<lambda>m. m),
       tm_concatenate = plain_concatenate,
       pv_PolyData = (\<lambda>vs fs. (case vs of None \<Rightarrow> [] | Some v \<Rightarrow> v,
                                case fs of None \<Rightarrow> [] | Some f \<Rightarrow> f)),
       pv_merge = (\<lambda>m ms. plain_merge_all (m # ms)),
       pv_points = fst,
       pv_faces = snd \<rparr>"

section \<open>A scenario of repeated assembly\<close>

text \<open>
  The example blade with two points per chord: its surface is generated and it is
  assembled on a cylinder of height 0.25; then its axial extent \<open>H\<close> is set to 1 and its
  surface is generated again.
\<close>

definition blade_gen1 :: blade where
  "blade_gen1 = snd (generate_surface (example_blade layers_params) 2)"



text \<open>The normaliser of the camber envelope before the guard \<open>eps\<close> is added.\<close>

definition peak :: "real \<Rightarrow> real" where
  "peak a = a powr a * (1 - a) powr (1 - a)"



section \<open>Properties of the shape primitives\<close>

subsection \<open>Auxiliary facts\<close>

lemma np_power_one [simp]: "np_power 1 y = Fin 1"
  by (simp add: np_power_def)

lemma np_power_zero_pos: "0 < y \<Longrightarrow> np_power 0 y = Fin 0"
  by (simp add: np_power_def)

lemma clip_id: "lo \<le> v \<Longrightarrow> v \<le> hi \<Longrightarrow> np_clip v lo hi = v"
  by (simp add: np_clip_def)

lemma clip_bounds: "lo \<le> hi \<Longrightarrow> lo \<le> np_clip v lo hi \<and> np_clip v lo hi \<le> hi"
  by (auto simp: np_clip_def)

lemma np_power_nonneg_cases:
  assumes "0 \<le> x"
  shows "(\<exists>t. 0 \<le> t \<and> np_power x y = Fin t) \<or> (np_power x y = PInf \<and> y < 0)"
  using assms by (auto simp: np_power_def)

lemma cos_sum_nonneg: "0 \<le> 1 + cos (t::real)"
  using cos_ge_minus_one[of t] by linarith

lemma cos_base_nonneg: "0 \<le> (1 - cos (t::real)) / 2" "0 \<le> (1 + cos (t::real)) / 2"
  using cos_sum_nonneg[of t] cos_le_one[of t] by simp_all

lemma thickness_cases:
  "(\<exists>t. 0 \<le> t \<and> thickness_distribution x a b beta = Fin t)
   \<or> (thickness_distribution x a b beta = PInf \<and> beta < 0)"
proof -
  define ok where "ok v \<longleftrightarrow> (\<exists>t. 0 \<le> t \<and> v = Fin t) \<or> (v = PInf \<and> beta < 0)" for v
  have A: "ok (np_power ((1 - cos u) / 2) beta)" for u
    unfolding ok_def by (rule np_power_nonneg_cases[OF cos_base_nonneg(1)])
  have B: "ok (np_power ((1 + cos u) / 2) beta)" for u
    unfolding ok_def by (rule np_power_nonneg_cases[OF cos_base_nonneg(2)])
  have C: "ok (Fin 1)" "ok (Fin 0)" by (simp_all add: ok_def)
  have "ok (thickness_distribution x a b beta)"
    unfolding thickness_distribution_def Let_def
    by (simp only: A B C split: if_split) simp
  then show ?thesis by (simp add: ok_def)
qed

lemma eps_pos: "0 < eps" and eps_small: "eps < 1/2"
  by (simp_all add: eps_def)

lemma clip_unit: "0 < np_clip alpha eps (1 - eps) \<and> np_clip alpha eps (1 - eps) < 1"
  using eps_pos eps_small by (auto simp: np_clip_def)


lemma peak_pos: "0 < a \<Longrightarrow> a < 1 \<Longrightarrow> 0 < peak a"
  by (simp add: peak_def)










subsection \<open>Camber envelope\<close>




subsection \<open>Thickness profile\<close>

text \<open>
  C7, as the code has it. For \<open>a\<close> in \<open>[0.1, 0.3]\<close>, \<open>b\<close> in \<open>[0.7, 0.9]\<close> with
  \<open>a < b\<close> and every exponent \<open>beta > 0\<close>, the thickness profile is 0 at \<open>x = 0\<close>,
  0 at \<open>x = 1\<close> and 1 at every \<open>x\<close> of the closed interval \<open>[a, b]\<close>.
\<close>

theorem thickness_distribution_ends_plateau:
  assumes "1/10 \<le> a" "a \<le> 3/10" "7/10 \<le> b" "b \<le> 9/10" "a < b" "0 < beta"
  shows "thickness_distribution 0 a b beta = Fin 0
       \<and> thickness_distribution 1 a b beta = Fin 0
       \<and> (\<forall>x. a \<le> x \<and> x \<le> b \<longrightarrow> thickness_distribution x a b beta = Fin 1)"
proof -
  have ca: "np_clip a (1/10) (3/10) = a" and cb: "np_clip b (7/10) (9/10) = b"
    using assms by (simp_all add: clip_id)
  have a0: "0 < a" and b1: "b < 1" and ab: "a \<le> b" using assms by simp_all
  have z: "thickness_distribution 0 a b beta = Fin 0"
    using a0 b1 ab assms(6) by (simp add: thickness_distribution_def ca cb Let_def np_power_zero_pos)
  have "pi * (1 - b) / (1 - b) = pi" using b1 by simp
  then have o: "thickness_distribution 1 a b beta = Fin 0"
    using a0 b1 ab assms by (simp add: thickness_distribution_def ca cb Let_def np_power_zero_pos)
  have p: "thickness_distribution x a b beta = Fin 1" if "a \<le> x" "x \<le> b" for x
  proof -
    have "pi * a / a = pi" using a0 by simp
    then show ?thesis
      using a0 b1 ab that by (auto simp: thickness_distribution_def ca cb Let_def)
  qed
  from z o p show ?thesis by blast
qed

theorem thickness_distribution_ends_plateau_witness:
  "thickness_distribution 0 (2/10) (8/10) (3/10) = Fin 0
   \<and> thickness_distribution 1 (2/10) (8/10) (3/10) = Fin 0
   \<and> thickness_distribution (1/2) (2/10) (8/10) (3/10) = Fin 1
   \<and> thickness_distribution (2/10) (2/10) (8/10) (3/10) = Fin 1
   \<and> thickness_distribution (8/10) (2/10) (8/10) (3/10) = Fin 1"
proof -
  have h: "(1/10::real) \<le> 2/10" "(2/10::real) \<le> 3/10" "(7/10::real) \<le> 8/10"
    "(8/10::real) \<le> 9/10" "(2/10::real) < 8/10" "(0::real) < 3/10"
    by simp_all
  have q: "(2/10::real) \<le> 1/2 \<and> (1/2::real) \<le> 8/10"
    "(2/10::real) \<le> 2/10 \<and> (2/10::real) \<le> 8/10"
    "(2/10::real) \<le> 8/10 \<and> (8/10::real) \<le> 8/10"
    by simp_all
  from thickness_distribution_ends_plateau[OF h] q show ?thesis by blast
qed

text \<open>
  The claim as written, for every \<open>beta\<close>, fails at \<open>beta = 0\<close>: the base of the power
  is 0 at \<open>x = 0\<close>, and \<open>0 ** 0\<close> is 1.
\<close>

theorem thickness_distribution_zero_exponent_counterexample:
  "thickness_distribution 0 (2/10) (8/10) 0 = Fin 1
   \<and> thickness_distribution 0 (2/10) (8/10) 0 \<noteq> Fin 0"
  by (simp add: thickness_distribution_def np_clip_def Let_def np_power_def)

subsection \<open>Tapered thickness profile\<close>

text \<open>
  C8, as the code has it. For \<open>x\<close> and \<open>taper\<close> in \<open>[0,1]\<close> and all \<open>a\<close>, \<open>b\<close>,
  \<open>beta\<close>, except where \<open>beta < 0\<close>, \<open>x = 1\<close> and \<open>taper = 1\<close> hold together: the tapered
  profile is the thickness profile times \<open>1 - taper * x\<close>, it is less than or equal to
  the thickness profile, and it equals it when \<open>taper = 0\<close>.
\<close>

theorem tapered_thickness_le:
  assumes "0 \<le> x" "x \<le> 1" "0 \<le> taper" "taper \<le> 1"
      and "\<not> (beta < 0 \<and> x = 1 \<and> taper = 1)"
  shows "tapered_thickness_distribution x a b beta taper
           = np_mul (thickness_distribution x a b beta) (Fin (1 - taper * x))
       \<and> np_le (tapered_thickness_distribution x a b beta taper)
               (thickness_distribution x a b beta)
       \<and> (taper = 0 \<longrightarrow> tapered_thickness_distribution x a b beta taper
                           = thickness_distribution x a b beta)"
proof -
  have tx: "0 \<le> taper * x" using assms by simp
  have tx1: "taper * x \<le> 1" using assms by (simp add: mult_le_one)
  consider t where "0 \<le> t" "thickness_distribution x a b beta = Fin t"
    | "thickness_distribution x a b beta = PInf" "beta < 0"
    using thickness_cases[of x a b beta] by blast
  then show ?thesis
  proof cases
    case 1
    have "t * (1 - taper * x) \<le> t * 1" using 1(1) tx by (intro mult_left_mono) simp_all
    then show ?thesis using 1 by (simp add: tapered_thickness_distribution_def)
  next
    case 2
    have "taper * x \<noteq> 1"
    proof
      assume e: "taper * x = 1"
      have "taper * x \<le> taper * 1" using assms by (intro mult_left_mono) simp_all
      with e have t1: "taper = 1" using assms by simp
      with e have "x = 1" by simp
      with t1 2 assms(5) show False by simp
    qed
    with tx1 have "0 < 1 - taper * x" by simp
    then show ?thesis using 2 by (simp add: tapered_thickness_distribution_def signed_inf_def)
  qed
qed

theorem tapered_thickness_le_witness:
  "tapered_thickness_distribution (1/2) (2/10) (8/10) (3/10) (1/2)
     = np_mul (thickness_distribution (1/2) (2/10) (8/10) (3/10)) (Fin (1 - 1/2 * (1/2)))
   \<and> np_le (tapered_thickness_distribution (1/2) (2/10) (8/10) (3/10) (1/2))
           (thickness_distribution (1/2) (2/10) (8/10) (3/10))
   \<and> tapered_thickness_distribution 1 (2/10) (8/10) (- 1) 0
       = thickness_distribution 1 (2/10) (8/10) (- 1)"
proof -
  have h: "(0::real) \<le> 1/2" "(1/2::real) \<le> 1" "(0::real) \<le> 1/2" "(1/2::real) \<le> 1"
    "\<not> ((3/10::real) < 0 \<and> (1/2::real) = 1 \<and> (1/2::real) = 1)"
    by simp_all
  have k: "(0::real) \<le> 1" "(1::real) \<le> 1" "(0::real) \<le> 0" "(0::real) \<le> 1"
    "\<not> ((- 1::real) < 0 \<and> (1::real) = 1 \<and> (0::real) = 1)"
    by simp_all
  from tapered_thickness_le[OF h, of "2/10" "8/10"] tapered_thickness_le[OF k, of "2/10" "8/10"]
  show ?thesis by blast
qed

text \<open>
  The claim as written, for every \<open>beta\<close>, fails at \<open>beta = - 1\<close>, \<open>x = 1\<close>,
  \<open>taper = 1\<close>: the thickness is \<open>0 ** (- 1) = +inf\<close>, the factor is 0, their product is
  NaN, and no comparison with NaN holds.
\<close>

theorem tapered_thickness_nan_counterexample:
  "thickness_distribution 1 (2/10) (8/10) (- 1) = PInf
   \<and> tapered_thickness_distribution 1 (2/10) (8/10) (- 1) 1 = NaN
   \<and> \<not> np_le (tapered_thickness_distribution 1 (2/10) (8/10) (- 1) 1)
              (thickness_distribution 1 (2/10) (8/10) (- 1))"
proof -
  have "pi * (1 - 8/10) / (1 - 8/10) = pi" by simp
  then have t: "thickness_distribution 1 (2/10) (8/10) (- 1) = PInf"
    by (simp add: thickness_distribution_def np_clip_def Let_def np_power_def)
  then show ?thesis by (simp add: tapered_thickness_distribution_def signed_inf_def)
qed

section \<open>Properties of the blade generator\<close>

subsection \<open>Auxiliary facts\<close>

lemma linspace_neg: "N < 0 \<Longrightarrow> linspace s t N = Inl NegativeSamples"
  by (simp add: linspace_def)

lemma linspace_nonneg:
  "0 \<le> N \<Longrightarrow> \<exists>xi. linspace s t N = Inr xi \<and> length xi = nat N"
  by (simp add: linspace_def)

lemma layer_points_length:
  "length (fst (layer_points self xi i n)) = length xi"
  "length (fst (snd (layer_points self xi i n))) = length xi"
  "length (snd (snd (layer_points self xi i n))) = length xi"
  by (simp_all add: layer_points_def Let_def)

lemma length_concat_const:
  "(\<And>x. x \<in> set xs \<Longrightarrow> length (f x) = k) \<Longrightarrow> length (concat (map f xs)) = length xs * k"
  by (induction xs) simp_all

lemma concat_nth_five:
  assumes "\<And>q. q \<in> set qs \<Longrightarrow> length q = 5" and "k < 5 * length qs"
  shows "concat qs ! k = (qs ! (k div 5)) ! (k mod 5)"
  using assms
proof (induction qs arbitrary: k)
  case Nil
  then show ?case by simp
next
  case (Cons q qs)
  have lq: "length q = 5" using Cons.prems(1) by simp
  show ?case
  proof (cases "k < 5")
    case True
    then show ?thesis using lq by (simp add: nth_append)
  next
    case False
    then obtain m where k: "k = m + 5" by (metis add.commute le_Suc_ex not_less)
    have m: "m < 5 * length qs" using Cons.prems(2) k by simp
    have "concat (q # qs) ! k = concat qs ! m"
      using lq k by (simp add: nth_append)
    also have "\<dots> = (qs ! (m div 5)) ! (m mod 5)"
      using Cons.prems(1) m by (intro Cons.IH) auto
    finally show ?thesis by (simp add: k)
  qed
qed

lemma quad_indices_bound:
  assumes len: "\<And>q. q \<in> set qs \<Longrightarrow> length q = 5"
      and bnd: "\<And>q m. q \<in> set qs \<Longrightarrow> m \<in> {1, 2, 3, 4} \<Longrightarrow> P (q ! m)"
      and v: "v \<in> set (quad_vertex_indices (concat qs))"
  shows "P v"
proof -
  have lc: "length (concat qs) = length qs * 5"
    using length_concat_const[of qs "\<lambda>q. q" 5] len by simp
  from v obtain k where k: "k < length (concat qs)" "k mod 5 \<noteq> 0" "v = concat qs ! k"
    by (auto simp: quad_vertex_indices_def)
  have k5: "k < 5 * length qs" using k(1) lc by simp
  then have d: "k div 5 < length qs" by simp
  have "k mod 5 < 5" by simp
  with k(2) have m: "k mod 5 \<in> {1, 2, 3, 4}" by auto
  have "v = (qs ! (k div 5)) ! (k mod 5)"
    using concat_nth_five[OF len k5] k(3) by simp
  then show ?thesis using bnd[OF nth_mem[OF d] m] by simp
qed

lemma build_faces_fail:
  "\<not> (2 \<le> N \<and> 2 \<le> L) \<Longrightarrow> build_faces N L = Inl EmptyConcatenate"
  by (auto simp: build_faces_def Let_def)

lemma build_faces_ok:
  assumes "2 \<le> N" "2 \<le> L"
  shows "\<exists>flat. build_faces N L = Inr flat"
proof -
  have "0 < L - 1" "0 < nat (N - 1)" using assms by auto
  then show ?thesis by (auto simp: build_faces_def Let_def intro!: exI[of _ 0])
qed

lemma build_faces_indices:
  assumes r: "build_faces N L = Inr flat" and v: "v \<in> set (quad_vertex_indices flat)"
  shows "0 \<le> v \<and> v < int L * N"
proof -
  have NL: "2 \<le> N" "2 \<le> L" using r build_faces_fail[of N L] by auto
  define qs where "qs = concat (map (\<lambda>i. map (\<lambda>j.
       [4, int i * N + int j, int i * N + int j + 1,
        (int i + 1) * N + int j + 1, (int i + 1) * N + int j])
       [0..<nat (N - 1)]) [0..<L - 1])"
  have flat: "flat = concat qs"
    using r by (simp add: build_faces_def Let_def qs_def split: if_splits)
  have len: "length q = 5" if "q \<in> set qs" for q
    using that by (auto simp: qs_def)
  have bnd: "0 \<le> q ! m \<and> q ! m < int L * N" if q: "q \<in> set qs" and m: "m \<in> {1, 2, 3, 4}" for q m
  proof -
    from q obtain i j where i: "i < L - 1" and j: "j < nat (N - 1)"
      and qe: "q = [4, int i * N + int j, int i * N + int j + 1,
                    (int i + 1) * N + int j + 1, (int i + 1) * N + int j]"
      by (auto simp: qs_def)
    have j': "int j + 1 < N" using j by linarith
    have "(int i + 1) * N \<le> (int L - 1) * N"
      using i NL by (intro mult_right_mono) auto
    then have up: "(int i + 1) * N + int j + 1 < int L * N"
      using j' by (simp add: algebra_simps)
    have lo: "0 \<le> int i * N" using NL by simp
    have st: "int i * N \<le> (int i + 1) * N" using NL by (simp add: algebra_simps)
    from m consider "m = 1" | "m = 2" | "m = 3" | "m = 4" by auto
    then show ?thesis
      using up lo st by cases (simp_all add: qe)
  qed
  show ?thesis
    using quad_indices_bound[of qs "\<lambda>v. 0 \<le> v \<and> v < int L * N" v] len bnd v flat by blast
qed

lemma generate_surface_fails:
  assumes "\<not> (2 \<le> N \<and> 2 \<le> length (layers self))"
  shows "fst (generate_surface self N)
         = Inl (if N < 0 then NegativeSamples else EmptyConcatenate)"
proof (cases "N < 0")
  case True
  then show ?thesis by (simp add: generate_surface_def linspace_neg)
next
  case False
  then obtain xi where xi: "linspace 0 1 N = Inr xi"
    using linspace_nonneg[of N 0 1] by auto
  have bf: "build_faces N (length (layers self)) = Inl EmptyConcatenate"
    by (rule build_faces_fail[OF assms])
  show ?thesis using False by (simp add: generate_surface_def xi bf Let_def)
qed

lemma generate_surface_returns:
  assumes N: "2 \<le> N" and L: "2 \<le> length (layers self)"
  shows "\<exists>xi fl. linspace 0 1 N = Inr xi \<and> length xi = nat N
           \<and> build_faces N (length (layers self)) = Inr fl
           \<and> generate_surface self N =
               (Inr (),
                self\<lparr> vertices_upper := Some (concat (map fst
                         (map (\<lambda>i. layer_points self xi i (length (layers self)))
                              [0..<length (layers self)]))),
                      vertices_lower := Some (concat (map (fst \<circ> snd)
                         (map (\<lambda>i. layer_points self xi i (length (layers self)))
                              [0..<length (layers self)]))),
                      vertices_center := Some (concat (map (snd \<circ> snd)
                         (map (\<lambda>i. layer_points self xi i (length (layers self)))
                              [0..<length (layers self)]))),
                      faces_upper := Some fl, faces_lower := Some fl, faces_center := Some fl \<rparr>)"
proof -
  obtain xi where xi: "linspace 0 1 N = Inr xi" "length xi = nat N"
    using linspace_nonneg[of N 0 1] N by auto
  obtain fl where fl: "build_faces N (length (layers self)) = Inr fl"
    using build_faces_ok[OF N L] by auto
  have ne: "layers self \<noteq> []" using L by auto
  show ?thesis
    using xi fl ne by (simp add: generate_surface_def Let_def)
qed

lemma stacked_length:
  assumes "\<And>i. length (g (f i)) = k"
  shows "length (concat (map g (map f is))) = length is * k"
  using assms by (induction "is") simp_all

lemma example_blade_layers: "layers (example_blade ls) = ls"
  by (simp add: example_blade_def Blade3D_def)

lemma layers_params_length: "length layers_params = 2"
  by (simp add: layers_params_def)

subsection \<open>Vertex counts and face indices\<close>

text \<open>
  C2. On a blade with at least 2 layers, \<open>generate_surface\<close> with \<open>N\<close> points per chord
  returns normally whenever \<open>N \<ge> 2\<close>; and whenever it returns normally, each of
  \<open>vertices_upper\<close>, \<open>vertices_lower\<close> and \<open>vertices_center\<close> holds exactly \<open>L * N\<close>
  points and every vertex index in \<open>faces_upper\<close>, \<open>faces_lower\<close> and \<open>faces_center\<close> is
  at least 0 and strictly less than \<open>L * N\<close>.
\<close>

theorem generate_surface_counts:
  assumes L: "2 \<le> length (layers self)"
  shows "(2 \<le> N \<longrightarrow> fst (generate_surface self N) = Inr ())
       \<and> (fst (generate_surface self N) = Inr () \<longrightarrow>
            (let self' = snd (generate_surface self N);
                 LN = int (length (layers self)) * N
             in map_option (\<lambda>v. int (length v)) (vertices_upper self') = Some LN
              \<and> map_option (\<lambda>v. int (length v)) (vertices_lower self') = Some LN
              \<and> map_option (\<lambda>v. int (length v)) (vertices_center self') = Some LN
              \<and> (\<exists>fu fl fc. faces_upper self' = Some fu \<and> faces_lower self' = Some fl
                     \<and> faces_center self' = Some fc
                     \<and> (\<forall>v \<in> set (quad_vertex_indices fu) \<union> set (quad_vertex_indices fl)
                               \<union> set (quad_vertex_indices fc). 0 \<le> v \<and> v < LN))))"
proof (cases "2 \<le> N")
  case False
  then show ?thesis using generate_surface_fails[of N self] by simp
next
  case True
  obtain xi fl where xi: "length xi = nat N"
    and fl: "build_faces N (length (layers self)) = Inr fl"
    and g: "generate_surface self N =
               (Inr (),
                self\<lparr> vertices_upper := Some (concat (map fst
                         (map (\<lambda>i. layer_points self xi i (length (layers self)))
                              [0..<length (layers self)]))),
                      vertices_lower := Some (concat (map (fst \<circ> snd)
                         (map (\<lambda>i. layer_points self xi i (length (layers self)))
                              [0..<length (layers self)]))),
                      vertices_center := Some (concat (map (snd \<circ> snd)
                         (map (\<lambda>i. layer_points self xi i (length (layers self)))
                              [0..<length (layers self)]))),
                      faces_upper := Some fl, faces_lower := Some fl, faces_center := Some fl \<rparr>)"
    using generate_surface_returns[OF True L] by blast
  have n: "int (length (layers self) * nat N) = int (length (layers self)) * N"
    using True by simp
  have lu: "length (concat (map fst (map (\<lambda>i. layer_points self xi i (length (layers self)))
                              [0..<length (layers self)]))) = length (layers self) * nat N"
    using stacked_length[of fst "\<lambda>i. layer_points self xi i (length (layers self))" "nat N"
            "[0..<length (layers self)]"] layer_points_length(1)[of self xi] xi by simp
  have ll: "length (concat (map (fst \<circ> snd) (map (\<lambda>i. layer_points self xi i (length (layers self)))
                              [0..<length (layers self)]))) = length (layers self) * nat N"
    using stacked_length[of "fst \<circ> snd" "\<lambda>i. layer_points self xi i (length (layers self))" "nat N"
            "[0..<length (layers self)]"] layer_points_length(2)[of self xi] xi by simp
  have lc: "length (concat (map (snd \<circ> snd) (map (\<lambda>i. layer_points self xi i (length (layers self)))
                              [0..<length (layers self)]))) = length (layers self) * nat N"
    using stacked_length[of "snd \<circ> snd" "\<lambda>i. layer_points self xi i (length (layers self))" "nat N"
            "[0..<length (layers self)]"] layer_points_length(3)[of self xi] xi by simp
  have fb: "\<forall>v \<in> set (quad_vertex_indices fl). 0 \<le> v \<and> v < int (length (layers self)) * N"
    using build_faces_indices[OF fl] by blast
  show ?thesis
    unfolding g Let_def using lu ll lc n fb by simp
qed

theorem generate_surface_counts_witness:
  "fst (generate_surface (example_blade layers_params) 300) = Inr ()
   \<and> map_option (\<lambda>v. int (length v))
         (vertices_upper (snd (generate_surface (example_blade layers_params) 300))) = Some 600
   \<and> map_option (\<lambda>v. int (length v))
         (vertices_lower (snd (generate_surface (example_blade layers_params) 300))) = Some 600
   \<and> map_option (\<lambda>v. int (length v))
         (vertices_center (snd (generate_surface (example_blade layers_params) 300))) = Some 600"
proof -
  have h: "2 \<le> length (layers (example_blade layers_params))"
    by (simp add: example_blade_layers layers_params_length)
  have n: "(2::int) \<le> 300" by simp
  from generate_surface_counts[OF h, of 300] n show ?thesis
    by (simp add: Let_def example_blade_layers layers_params_length)
qed

subsection \<open>The layer precondition\<close>

text \<open>
  C6, as the code has it. \<open>generate_surface\<close> has no check of the number of layers. On a
  blade with fewer than 2 layers it always fails: with the error of the empty
  \<open>np.vstack\<close> or \<open>np.hstack\<close> when the number of points is not negative, with the error
  of \<open>np.linspace\<close> otherwise. On a blade with 2 or more layers and at least 2 points per
  chord it returns normally.
\<close>

theorem generate_surface_layers:
  "(length (layers self) < 2 \<longrightarrow>
      fst (generate_surface self N)
        = Inl (if N < 0 then NegativeSamples else EmptyConcatenate))
   \<and> (2 \<le> length (layers self) \<and> 2 \<le> N \<longrightarrow> fst (generate_surface self N) = Inr ())"
proof -
  have "fst (generate_surface self N) = Inr ()" if "2 \<le> length (layers self)" "2 \<le> N"
    using generate_surface_returns[OF that(2,1)] by auto
  then show ?thesis using generate_surface_fails[of N self] by auto
qed

theorem generate_surface_layers_witness:
  "fst (generate_surface (example_blade (take 1 layers_params)) 300) = Inl EmptyConcatenate
   \<and> fst (generate_surface (example_blade layers_params) 300) = Inr ()"
proof -
  have a: "length (layers (example_blade (take 1 layers_params))) < 2"
    by (simp add: example_blade_layers layers_params_length)
  have b: "2 \<le> length (layers (example_blade layers_params)) \<and> (2::int) \<le> 300"
    by (simp add: example_blade_layers layers_params_length)
  from generate_surface_layers[of "example_blade (take 1 layers_params)" 300]
       generate_surface_layers[of "example_blade layers_params" 300] a b
  show ?thesis by simp
qed

text \<open>
  The error of a blade with fewer than 2 layers is not distinct: a blade with 2 layers and
  a single point per chord raises the same one.
\<close>

theorem generate_surface_layers_counterexample:
  "length (layers (example_blade (take 1 layers_params))) = 1
   \<and> fst (generate_surface (example_blade (take 1 layers_params)) 300) = Inl EmptyConcatenate
   \<and> length (layers (example_blade layers_params)) = 2
   \<and> fst (generate_surface (example_blade layers_params) 1) = Inl EmptyConcatenate"
proof -
  have a: "\<not> (2 \<le> (300::int) \<and> 2 \<le> length (layers (example_blade (take 1 layers_params))))"
    by (simp add: example_blade_layers layers_params_length)
  have b: "\<not> (2 \<le> (1::int) \<and> 2 \<le> length (layers (example_blade layers_params)))"
    by simp
  show ?thesis
    using generate_surface_fails[OF a] generate_surface_fails[OF b]
    by (simp add: example_blade_layers layers_params_length)
qed

section \<open>Properties of the radial assembly\<close>

subsection \<open>Auxiliary facts\<close>

lemma ensure_surface_populated:
  "vertices_upper b = Some vu \<Longrightarrow> ensure_surface b = (Inr (), b)"
  by (simp add: ensure_surface_def)


lemma solid_keeps_blade:
  assumes "vertices_upper b = Some vu"
  shows "snd (generate_solid_from_surfaces L b mode) = b"
  using assms
  by (simp add: generate_solid_from_surfaces_def ensure_surface_populated Let_def
           split: option.splits sum.splits)

lemma pyvista_keeps_blade:
  assumes "vertices_upper b = Some vu"
  shows "snd (to_pyvista_mesh L b mode) = b"
  using assms
  by (simp add: to_pyvista_mesh_def ensure_surface_populated Let_def split: list.splits)

lemma pyvista_both:
  assumes "vertices_upper b = Some vu"
  shows "to_pyvista_mesh L b ''both''
         = (Inr (pv_merge L (pv_PolyData L (vertices_upper b) (faces_upper b))
                            [pv_PolyData L (vertices_lower b) (faces_lower b)]), b)"
  using assms by (simp add: to_pyvista_mesh_def ensure_surface_populated Let_def)



lemma assemble_frame_aux:
  assumes vu: "vertices_upper blade = Some vu"
  shows "snd (assemble_blades_on_cylinder L blade n_blades radius height z_base as_solid) = blade
       \<or> (\<exists>z. snd (assemble_blades_on_cylinder L blade n_blades radius height z_base as_solid)
                = blade\<lparr> z_coords := Some z \<rparr>)"
proof -
  have s: "\<exists>r. generate_solid_from_surfaces L blade ''both'' = (r, blade)"
    using solid_keeps_blade[OF vu, of L "''both''"] by (metis prod.collapse)
  have p: "to_pyvista_mesh L blade ''both''
         = (Inr (pv_merge L (pv_PolyData L (vertices_upper blade) (faces_upper blade))
                            [pv_PolyData L (vertices_lower blade) (faces_lower blade)]), blade)"
    by (rule pyvista_both[OF vu])
  show ?thesis
  proof (cases as_solid)
    case True
    from s obtain r where r: "generate_solid_from_surfaces L blade ''both'' = (r, blade)" by blast
    show ?thesis
      unfolding assemble_blades_on_cylinder_def Let_def
      using True r
      by (auto split: sum.splits option.splits prod.splits if_splits)
  next
    case False
    show ?thesis
      unfolding assemble_blades_on_cylinder_def Let_def
      using False p
      by (auto split: sum.splits option.splits prod.splits if_splits)
  qed
qed

lemma linspace_two: "linspace a b 2 = Inr [a, b]"
proof -
  have "[0..<nat 2] = [0, 1]" by (simp add: upt_rec)
  then show ?thesis by (simp add: linspace_def)
qed

lemma np_power_pos: "0 < x \<Longrightarrow> np_power x y = Fin (x powr y)"
  by (simp add: np_power_def)

lemma beta_distribution_extended_ends:
  assumes k: "0 < k"
  shows "beta_distribution_extended 0 al k = Fin 0" "beta_distribution_extended 1 al k = Fin 0"
proof -
  define a where "a = np_clip al eps (1 - eps)"
  have a: "0 < a" "a < 1" using clip_unit[of al] by (simp_all add: a_def)
  have ka: "0 < k * a" "0 < k * (1 - a)" using k a by simp_all
  have d: "0 < peak a + eps" using peak_pos[OF a] eps_pos by simp
  have pa: "np_power a a = Fin (a powr a)" "np_power (1 - a) (1 - a) = Fin ((1 - a) powr (1 - a))"
    using a by (simp_all add: np_power_def)
  have "np_add (np_mul (np_power a a) (np_power (1 - a) (1 - a))) (Fin eps) = Fin (peak a + eps)"
    by (simp only: pa np_mul.simps np_add.simps peak_def)
  then have den: "np_power_fl (np_add (np_mul (np_power a a) (np_power (1 - a) (1 - a))) (Fin eps)) k
             = Fin ((peak a + eps) powr k)"
    using d by (simp add: np_power_pos)
  have dn: "(peak a + eps) powr k \<noteq> 0" using d by simp
  show "beta_distribution_extended 0 al k = Fin 0"
    unfolding beta_distribution_extended_def a_def[symmetric] Let_def den
    using ka dn by (simp add: np_power_zero_pos)
  show "beta_distribution_extended 1 al k = Fin 0"
    unfolding beta_distribution_extended_def a_def[symmetric] Let_def den
    using ka dn by (simp add: np_power_zero_pos)
qed

lemma thickness_distribution_ends:
  assumes "0 < beta"
  shows "thickness_distribution 0 a0 b0 beta = Fin 0" "thickness_distribution 1 a0 b0 beta = Fin 0"
proof -
  define a where "a = np_clip a0 (1/10) (3/10)"
  define b where "b = np_clip b0 (7/10) (9/10)"
  have a: "1/10 \<le> a" "a \<le> 3/10" using clip_bounds[of "1/10" "3/10" a0] by (simp_all add: a_def)
  have b: "7/10 \<le> b" "b \<le> 9/10" using clip_bounds[of "7/10" "9/10" b0] by (simp_all add: b_def)
  have ab: "a \<le> b" "0 < a" "b < 1" "\<not> b \<le> 0" "\<not> 1 \<le> a" "0 \<le> a" "b \<le> 1"
    using a b by simp_all
  have q: "pi * (1 - b) / (1 - b) = pi" using ab by simp
  show "thickness_distribution 0 a0 b0 beta = Fin 0"
    unfolding thickness_distribution_def a_def[symmetric] b_def[symmetric] Let_def
    using ab assms by (simp add: np_power_zero_pos)
  show "thickness_distribution 1 a0 b0 beta = Fin 0"
    unfolding thickness_distribution_def a_def[symmetric] b_def[symmetric] Let_def
    using ab assms q by (simp add: np_power_zero_pos)
qed

lemma layer_points_z_ends:
  assumes m: "layer_mode (layers b ! i) = Some ''extended''"
      and k: "layer_kappa (layers b ! i) = Some k" "0 < k"
      and be: "0 < layer_beta (layers b ! i)"
  shows "z_column (fst (layer_points b [0, 1] i n)) = [Fin (z0 b), Fin (z0 b + H b)]"
    and "z_column (fst (snd (layer_points b [0, 1] i n))) = [Fin (z0 b), Fin (z0 b + H b)]"
  using m k be
  by (simp_all add: layer_points_def Let_def z_column_def np_sub_def
        beta_distribution_extended_ends thickness_distribution_ends)

lemma z_column_append: "z_column (xs @ ys) = z_column xs @ z_column ys"
  by (simp add: z_column_def)

lemma generate_two_points:
  assumes ls: "layers b = layers_params"
  shows "fst (generate_surface b 2) = Inr ()
       \<and> (\<exists>vu vl. vertices_upper (snd (generate_surface b 2)) = Some vu
                \<and> vertices_lower (snd (generate_surface b 2)) = Some vl
                \<and> z_column vu = [Fin (z0 b), Fin (z0 b + H b), Fin (z0 b), Fin (z0 b + H b)]
                \<and> z_column vl = [Fin (z0 b), Fin (z0 b + H b), Fin (z0 b), Fin (z0 b + H b)])
       \<and> z_coords (snd (generate_surface b 2)) = z_coords b
       \<and> layers (snd (generate_surface b 2)) = layers b
       \<and> H (snd (generate_surface b 2)) = H b
       \<and> z0 (snd (generate_surface b 2)) = z0 b"
proof -
  have L: "length (layers b) = 2" by (simp add: ls layers_params_length)
  have N: "(2::int) \<le> 2" by simp
  have L2: "2 \<le> length (layers b)" using L by simp
  have up: "[0..<2] = [0, 1]" by (simp add: upt_rec)
  obtain xi fl where xi: "linspace 0 1 2 = Inr xi"
    and g: "generate_surface b 2 =
               (Inr (),
                b\<lparr> vertices_upper := Some (concat (map fst
                         (map (\<lambda>i. layer_points b xi i (length (layers b)))
                              [0..<length (layers b)]))),
                      vertices_lower := Some (concat (map (fst \<circ> snd)
                         (map (\<lambda>i. layer_points b xi i (length (layers b)))
                              [0..<length (layers b)]))),
                      vertices_center := Some (concat (map (snd \<circ> snd)
                         (map (\<lambda>i. layer_points b xi i (length (layers b)))
                              [0..<length (layers b)]))),
                      faces_upper := Some fl, faces_lower := Some fl, faces_center := Some fl \<rparr>)"
    using generate_surface_returns[OF N L2] by blast
  have x: "xi = [0, 1]" using xi by (simp add: linspace_two)
  have l0: "layer_mode (layers b ! 0) = Some ''extended''" "layer_kappa (layers b ! 0) = Some (15/10)"
    "0 < layer_beta (layers b ! 0)"
    by (simp_all add: ls layers_params_def)
  have l1: "layer_mode (layers b ! Suc 0) = Some ''extended''"
    "layer_kappa (layers b ! Suc 0) = Some (155/100)" "0 < layer_beta (layers b ! Suc 0)"
    by (simp_all add: ls layers_params_def)
  have k: "(0::real) < 15/10" "(0::real) < 155/100" by simp_all
  note z0s = layer_points_z_ends[OF l0(1,2) k(1) l0(3)] layer_points_z_ends[OF l1(1,2) k(2) l1(3)]
  show ?thesis
    unfolding g by (simp add: L up x z_column_append z0s)
qed


lemma example_blade_fields:
  "z0 (example_blade ls) = - (1/10)" "H (example_blade ls) = 21/100"
  "z_coords (example_blade ls) = None"
  by (simp_all add: example_blade_def Blade3D_def)

lemma blade_gen1_facts:
  "layers blade_gen1 = layers_params" "z_coords blade_gen1 = None"
  "z0 blade_gen1 = - (1/10)"
  "\<exists>vu vl. vertices_upper blade_gen1 = Some vu \<and> vertices_lower blade_gen1 = Some vl
     \<and> z_column vu = [Fin (- (1/10)), Fin (11/100), Fin (- (1/10)), Fin (11/100)]
     \<and> z_column vl = [Fin (- (1/10)), Fin (11/100), Fin (- (1/10)), Fin (11/100)]"
  using generate_two_points[of "example_blade layers_params"]
  by (simp_all add: blade_gen1_def example_blade_layers example_blade_fields)



subsection \<open>The span check\<close>




subsection \<open>The caches of the blade\<close>

text \<open>
  C9. On a blade with populated surface caches (the code tests \<open>vertices_upper\<close> only),
  a call to \<open>assemble_blades_on_cylinder\<close>, whether it returns or raises, leaves
  \<open>vertices_upper\<close>, \<open>vertices_lower\<close>, \<open>vertices_center\<close>, \<open>faces_upper\<close>,
  \<open>faces_lower\<close> and \<open>faces_center\<close> as they were: the only attribute it assigns on the
  blade is \<open>z_coords\<close>, and the translations and rotations act on the cylinder and on
  copies of the blade mesh.
\<close>

theorem assemble_keeps_caches:
  assumes "vertices_upper blade \<noteq> None"
  shows "vertices_upper (snd (assemble_blades_on_cylinder L blade n_blades radius height z_base as_solid))
           = vertices_upper blade
       \<and> vertices_lower (snd (assemble_blades_on_cylinder L blade n_blades radius height z_base as_solid))
           = vertices_lower blade
       \<and> vertices_center (snd (assemble_blades_on_cylinder L blade n_blades radius height z_base as_solid))
           = vertices_center blade
       \<and> faces_upper (snd (assemble_blades_on_cylinder L blade n_blades radius height z_base as_solid))
           = faces_upper blade
       \<and> faces_lower (snd (assemble_blades_on_cylinder L blade n_blades radius height z_base as_solid))
           = faces_lower blade
       \<and> faces_center (snd (assemble_blades_on_cylinder L blade n_blades radius height z_base as_solid))
           = faces_center blade"
proof -
  from assms obtain vu where vu: "vertices_upper blade = Some vu" by auto
  from assemble_frame_aux[OF vu, of L n_blades radius height z_base as_solid]
  show ?thesis by auto
qed

theorem assemble_keeps_caches_witness:
  "vertices_upper (snd (assemble_blades_on_cylinder plain_lib blade_gen1 6 (121/1000) (25/100) 0 True))
     = vertices_upper blade_gen1
   \<and> vertices_lower (snd (assemble_blades_on_cylinder plain_lib blade_gen1 6 (121/1000) (25/100) 0 True))
     = vertices_lower blade_gen1
   \<and> vertices_center (snd (assemble_blades_on_cylinder plain_lib blade_gen1 6 (121/1000) (25/100) 0 True))
     = vertices_center blade_gen1
   \<and> faces_upper (snd (assemble_blades_on_cylinder plain_lib blade_gen1 6 (121/1000) (25/100) 0 True))
     = faces_upper blade_gen1
   \<and> faces_lower (snd (assemble_blades_on_cylinder plain_lib blade_gen1 6 (121/1000) (25/100) 0 True))
     = faces_lower blade_gen1
   \<and> faces_center (snd (assemble_blades_on_cylinder plain_lib blade_gen1 6 (121/1000) (25/100) 0 True))
     = faces_center blade_gen1"
proof -
  have h: "vertices_upper blade_gen1 \<noteq> None" using blade_gen1_facts(4) by auto
  show ?thesis by (rule assemble_keeps_caches[OF h])
qed

section \<open>Properties of the diffusers\<close>

subsection \<open>Auxiliary facts\<close>




subsection \<open>The bottom hemisphere\<close>




subsection \<open>Unused arguments\<close>

text \<open>
  C10. Two calls of \<open>create_diffuser\<close> that differ only in \<open>radius_top\<close> have the same
  result, a mesh or an error; for the shape \<open>hemisphere\<close> the result does not depend on
  \<open>height\<close> either.
\<close>

theorem create_diffuser_ignores_radius_top:
  "create_diffuser L shape radius_base radius_top1 height z_base position
     = create_diffuser L shape radius_base radius_top2 height z_base position
   \<and> create_diffuser L ''hemisphere'' radius_base radius_top1 height1 z_base position
     = create_diffuser L ''hemisphere'' radius_base radius_top2 height2 z_base position"
  by (simp add: create_diffuser_def)

theorem create_diffuser_ignores_radius_top_witness:
  "create_diffuser plain_lib ''paraboloid'' (121/1000) (121/1000) (121/1000) (2/10) ''top''
     = create_diffuser plain_lib ''paraboloid'' (121/1000) (5/100) (121/1000) (2/10) ''top''
   \<and> create_diffuser plain_lib ''hemisphere'' (121/1000) (121/1000) (121/1000) (- (121/1000)) ''bottom''
     = create_diffuser plain_lib ''hemisphere'' (121/1000) (5/100) (2/10) (- (121/1000)) ''bottom''"
  using create_diffuser_ignores_radius_top[of plain_lib "''paraboloid''" "121/1000" "121/1000"
          "121/1000" "2/10" "''top''" "5/100" "121/1000" "2/10"]
        create_diffuser_ignores_radius_top[of plain_lib "''hemisphere''" "121/1000" "121/1000"
          "121/1000" "- (121/1000)" "''bottom''" "5/100" "121/1000" "2/10"]
  by blast

end
